theory Spec2Isabelle
  imports Complex_Main "HOL-Library.Char_ord" "HOL-Library.List_Lexorder"
begin

section \<open>Numbers, dictionaries and errors\<close>

text \<open>
  Python's floats are modelled as real numbers, so every theorem below is about the exact
  arithmetic that the code denotes and not about rounding. The integer inputs (population
  size, costs) are \<open>int\<close> and enter the arithmetic through \<open>real_of_int\<close>, as Python
  promotes them. A \<open>dict\<close> is an association list in insertion order; its keys are
  distinct in Python, and a lookup reads the first entry of a key.
\<close>

datatype py_error = KeyError | AttributeError | ZeroDivisionError

type_synonym 'v dict = "(string \<times> 'v) list"

definition dict_get :: "'v dict \<Rightarrow> string \<Rightarrow> 'v \<Rightarrow> 'v" where
  \<comment> \<open>\<open>d.get(k, default)\<close>\<close>
  "dict_get d k dflt = (case map_of d k of None \<Rightarrow> dflt | Some v \<Rightarrow> v)"

definition subscript :: "'v dict \<Rightarrow> string \<Rightarrow> py_error + 'v" where
  \<comment> \<open>\<open>d[k]\<close>, which raises \<open>KeyError\<close> on a missing key\<close>
  "subscript d k = (case map_of d k of None \<Rightarrow> Inl KeyError | Some v \<Rightarrow> Inr v)"

definition py_bind :: "py_error + 'a \<Rightarrow> ('a \<Rightarrow> py_error + 'b) \<Rightarrow> py_error + 'b" where
  \<comment> \<open>sequencing: an exception of the first computation ends the run\<close>
  "py_bind m f = (case m of Inl e \<Rightarrow> Inl e | Inr x \<Rightarrow> f x)"

fun starts_with :: "string \<Rightarrow> string \<Rightarrow> bool" where
  "starts_with [] s = True"
| "starts_with (c # cs) [] = False"
| "starts_with (c # cs) (d # ds) = (c = d \<and> starts_with cs ds)"

fun str_contains :: "string \<Rightarrow> string \<Rightarrow> bool" where
  \<comment> \<open>\<open>sub in s\<close> on Python strings\<close>
  "str_contains sub [] = (sub = [])"
| "str_contains sub (c # cs) = (starts_with sub (c # cs) \<or> str_contains sub cs)"

definition np_mean :: "real list \<Rightarrow> real" where
  "np_mean xs = sum_list xs / real (length xs)"

section \<open>The savings projector (app.py)\<close>

text \<open>
  The module-level parameters that \<open>calculate_savings\<close> reads. The rates are the slider
  values divided by 100; the discount rate slider ranges over 0 to 10 percent, so the
  discounting denominator \<open>(1 + rate) ** year\<close> is at least 1 in every run of the app.
  At rate -1, which no run reaches, numpy's division yields inf or nan, which no real
  number models, and the division of HOL yields 0.
\<close>

record params =
  population_size :: int
  osa_prevalence :: real
  current_diagnosis_rate :: real
  target_diagnosis_rate :: real
  treatment_adherence :: real
  cost_diagnosis :: int
  cost_treatment :: int
  discount_rate :: real

definition years :: "nat list" where
  \<comment> \<open>\<open>np.arange(1, 21)\<close>\<close>
  "years = [1..<21]"

definition comorbidity_costs :: "int dict" where
  "comorbidity_costs =
     [(''Hypertension'', 2000), (''Diabetes'', 12000),
      (''Cardiovascular Event'', 30000), (''Depression'', 5000)]"

definition risk_reduction :: "real dict" where
  "risk_reduction =
     [(''Hypertension'', 40 / 100), (''Diabetes'', 25 / 100),
      (''Cardiovascular Event'', 50 / 100), (''Depression'', 30 / 100)]"

definition discounted_value :: "real \<Rightarrow> nat \<Rightarrow> real \<Rightarrow> real" where
  \<comment> \<open>the third argument is the default \<open>rate=discount_rate\<close>, which no call overrides\<close>
  "discounted_value v year rate = v / ((1 + rate) ^ year)"

definition untreated_osa :: "params \<Rightarrow> real" where
  "untreated_osa p =
     real_of_int (population_size p) * osa_prevalence p * (1 - current_diagnosis_rate p)"

definition improved_treated_osa :: "params \<Rightarrow> real" where
  "improved_treated_osa p =
     real_of_int (population_size p) * osa_prevalence p
       * (target_diagnosis_rate p - current_diagnosis_rate p) * treatment_adherence p"

text \<open>The loop over the single conditions: \<open>for condition in comorbidity_costs\<close>.\<close>

fun conditions_loop ::
  "params \<Rightarrow> real dict \<Rightarrow> nat \<Rightarrow> string list \<Rightarrow> real \<Rightarrow> py_error + real" where
  "conditions_loop p comorbidity_prevalence year [] yearly_savings = Inr yearly_savings"
| "conditions_loop p comorbidity_prevalence year (condition # rest) yearly_savings =
     (let prevalence = dict_get comorbidity_prevalence condition 0;
          baseline_cases = untreated_osa p * prevalence
      in py_bind (subscript risk_reduction condition) (\<lambda>rr.
         let reduced_cases = improved_treated_osa p * prevalence * rr
         in py_bind (subscript comorbidity_costs condition) (\<lambda>c.
            let cost_avoided = reduced_cases * real_of_int c
            in conditions_loop p comorbidity_prevalence year rest
                 (yearly_savings + discounted_value cost_avoided year (discount_rate p)))))"

text \<open>The cost estimate of a joint label, by substring tests on the label.\<close>

definition cost_estimate :: "string \<Rightarrow> py_error + int" where
  "cost_estimate joint_key =
     py_bind (if str_contains ''Hypertension'' joint_key
              then py_bind (subscript comorbidity_costs ''Hypertension'') (\<lambda>c. Inr (0 + c))
              else Inr 0) (\<lambda>e1.
     py_bind (if str_contains ''Diabetes'' joint_key
              then py_bind (subscript comorbidity_costs ''Diabetes'') (\<lambda>c. Inr (e1 + c))
              else Inr e1) (\<lambda>e2.
     (if str_contains ''Cardio'' joint_key
      then py_bind (subscript comorbidity_costs ''Cardiovascular Event'') (\<lambda>c. Inr (e2 + c))
      else Inr e2)))"

text \<open>The loop over the joint profile: \<open>for joint_key, joint_val in joint_prevalence.items()\<close>.\<close>

fun joint_loop :: "params \<Rightarrow> nat \<Rightarrow> real dict \<Rightarrow> real \<Rightarrow> py_error + real" where
  "joint_loop p year [] yearly_savings = Inr yearly_savings"
| "joint_loop p year ((joint_key, joint_val) # rest) yearly_savings =
     py_bind (cost_estimate joint_key) (\<lambda>ce.
       let cost_avoided =
             improved_treated_osa p * joint_val * real_of_int ce
               * np_mean (map snd risk_reduction)
       in joint_loop p year rest
            (yearly_savings + discounted_value cost_avoided year (discount_rate p)))"

record annual_record =
  Year :: nat
  Cost_Avoided :: real
  Treatment_Cost :: real
  Net_Savings :: real

text \<open>The body of the loop over the years, on the pair \<open>(total_savings, annual_data)\<close>.\<close>

definition year_body ::
  "params \<Rightarrow> real dict \<Rightarrow> real dict \<Rightarrow> nat \<Rightarrow> real \<times> annual_record list
     \<Rightarrow> py_error + (real \<times> annual_record list)" where
  "year_body p comorbidity_prevalence joint_prevalence year st =
     (case st of (total_savings, annual_data) \<Rightarrow>
        py_bind (conditions_loop p comorbidity_prevalence year (map fst comorbidity_costs) 0)
          (\<lambda>ys. py_bind (joint_loop p year joint_prevalence ys) (\<lambda>yearly_savings.
             let treatment_cost =
                   improved_treated_osa p
                     * real_of_int (if year = 1 then cost_treatment p + cost_diagnosis p
                                    else cost_treatment p);
                 net_savings =
                   yearly_savings - discounted_value treatment_cost year (discount_rate p)
             in Inr (total_savings + net_savings,
                     annual_data @
                       [\<lparr>Year = year, Cost_Avoided = yearly_savings,
                         Treatment_Cost = discounted_value treatment_cost year (discount_rate p),
                         Net_Savings = net_savings\<rparr>]))))"

fun years_loop ::
  "params \<Rightarrow> real dict \<Rightarrow> real dict \<Rightarrow> nat list \<Rightarrow> real \<times> annual_record list
     \<Rightarrow> py_error + (real \<times> annual_record list)" where
  "years_loop p cp jp [] st = Inr st"
| "years_loop p cp jp (year # rest) st =
     py_bind (year_body p cp jp year st) (years_loop p cp jp rest)"

definition calculate_savings ::
  "params \<Rightarrow> real dict \<Rightarrow> real dict \<Rightarrow> py_error + (real \<times> annual_record list)" where
  "calculate_savings p comorbidity_prevalence joint_prevalence =
     years_loop p comorbidity_prevalence joint_prevalence years (0, [])"

text \<open>Reading the returned data frame: the rows of one year, in one column.\<close>

definition result_df :: "py_error + (real \<times> annual_record list) \<Rightarrow> annual_record list" where
  "result_df r = (case r of Inl e \<Rightarrow> [] | Inr (npv, df) \<Rightarrow> df)"

definition in_year ::
  "(annual_record \<Rightarrow> real) \<Rightarrow> py_error + (real \<times> annual_record list) \<Rightarrow> nat \<Rightarrow> real list" where
  \<comment> \<open>\<open>df[df['Year'] == y][col]\<close>, as a list\<close>
  "in_year col r y = map col (filter (\<lambda>row. Year row = y) (result_df r))"

subsection \<open>The two data sources\<close>

text \<open>
  Manual entry: eight sliders, each an integer percentage divided by 100. The defaults of
  the widgets are the values of \<open>default_params\<close>, \<open>default_comorbidity_prevalence\<close> and
  \<open>default_joint_prevalence\<close>.
\<close>

definition manual_comorbidity_prevalence :: "int \<Rightarrow> int \<Rightarrow> int \<Rightarrow> int \<Rightarrow> real dict" where
  "manual_comorbidity_prevalence h d c dep =
     [(''Hypertension'', real_of_int h / 100), (''Diabetes'', real_of_int d / 100),
      (''Cardiovascular Event'', real_of_int c / 100), (''Depression'', real_of_int dep / 100)]"

definition manual_joint_prevalence :: "int \<Rightarrow> int \<Rightarrow> int \<Rightarrow> int \<Rightarrow> real dict" where
  "manual_joint_prevalence hyp_dia hyp_car dia_car all3 =
     [(''Hypertension + Diabetes'', real_of_int hyp_dia / 100),
      (''Hypertension + Cardio'', real_of_int hyp_car / 100),
      (''Diabetes + Cardio'', real_of_int dia_car / 100),
      (''All Three'', real_of_int all3 / 100)]"

definition default_params :: params where
  "default_params =
     \<lparr>population_size = 100000, osa_prevalence = 25 / 100, current_diagnosis_rate = 20 / 100,
      target_diagnosis_rate = 50 / 100, treatment_adherence = 60 / 100,
      cost_diagnosis = 1000, cost_treatment = 1500, discount_rate = 3 / 100\<rparr>"

definition default_comorbidity_prevalence :: "real dict" where
  "default_comorbidity_prevalence = manual_comorbidity_prevalence 30 15 10 25"

definition default_joint_prevalence :: "real dict" where
  "default_joint_prevalence = manual_joint_prevalence 12 8 5 3"

text \<open>
  Upload: the file is the record that the sampler writes, a JSON object whose fields are
  numbers or objects of numbers. \<open>.get\<close> on a number raises \<open>AttributeError\<close>.
\<close>

datatype mc_value = MNum real | MObj "real dict"

definition upload_profiles :: "mc_value dict \<Rightarrow> py_error + (real dict \<times> real dict)" where
  "upload_profiles mc_data =
     (case dict_get mc_data ''joint_prevalence'' (MObj []) of
        MNum x \<Rightarrow> Inl AttributeError
      | MObj prevalence_raw \<Rightarrow>
          Inr ([(''Hypertension'', dict_get prevalence_raw ''hypertension'' 0),
                (''Diabetes'', dict_get prevalence_raw ''diabetes'' 0),
                (''Cardiovascular Event'', dict_get prevalence_raw ''cardio'' 0),
                (''Depression'', 25 / 100)],
               [(''Hypertension + Diabetes'', dict_get prevalence_raw ''hypertension_diabetes'' 0),
                (''Hypertension + Cardio'', dict_get prevalence_raw ''hypertension_cardio'' 0),
                (''Diabetes + Cardio'', dict_get prevalence_raw ''diabetes_cardio'' 0),
                (''All Three'', dict_get prevalence_raw ''hypertension_diabetes_cardio'' 0)]))"

section \<open>The comorbidity sampler (comorbidity\_monte\_carlo\_sim.py)\<close>

text \<open>
  The module-level parameters of the script, and the random source: \<open>np.random.rand()\<close>
  reads the next value of a sequence \<open>rnd\<close>, whose position is passed along.
\<close>

record sampler_config =
  n_patients :: int
  p_hyp :: real
  p_dia :: real
  p_car :: real
  p_hyp_dia :: real
  p_hyp_car :: real
  p_dia_car :: real
  p_all_three :: real

definition default_sampler_config :: sampler_config where
  "default_sampler_config =
     \<lparr>n_patients = 1000000, p_hyp = 30 / 100, p_dia = 15 / 100, p_car = 10 / 100,
      p_hyp_dia = 12 / 100, p_hyp_car = 8 / 100, p_dia_car = 5 / 100, p_all_three = 3 / 100\<rparr>"

definition costs :: "int dict" where
  "costs = [(''hypertension'', 2000), (''diabetes'', 12000), (''cardio'', 30000)]"

fun str_join :: "string \<Rightarrow> string list \<Rightarrow> string" where
  "str_join sep [] = []"
| "str_join sep [x] = x"
| "str_join sep (x # y # rest) = x @ sep @ str_join sep (y # rest)"

fun str_split :: "char \<Rightarrow> string \<Rightarrow> string list" where
  \<comment> \<open>\<open>s.split(sep)\<close> for a separator of one character\<close>
  "str_split sep [] = [[]]"
| "str_split sep (c # cs) =
     (if c = sep then [] # str_split sep cs
      else (case str_split sep cs of [] \<Rightarrow> [[c]] | w # ws \<Rightarrow> (c # w) # ws))"

definition simulate_patient :: "sampler_config \<Rightarrow> (nat \<Rightarrow> real) \<Rightarrow> nat \<Rightarrow> string \<times> nat" where
  "simulate_patient cfg rnd i =
     (let r = rnd i in
      if r < p_all_three cfg then (''hypertension_diabetes_cardio'', i + 1)
      else if r < p_all_three cfg + p_hyp_dia cfg then (''hypertension_diabetes'', i + 1)
      else if r < p_all_three cfg + p_hyp_dia cfg + p_hyp_car cfg
        then (''hypertension_cardio'', i + 1)
      else if r < p_all_three cfg + p_hyp_dia cfg + p_hyp_car cfg + p_dia_car cfg
        then (''diabetes_cardio'', i + 1)
      else
        (let flags = [];
             flags = (if rnd (i + 1) < p_hyp cfg then flags @ [''hypertension''] else flags);
             flags = (if rnd (i + 2) < p_dia cfg then flags @ [''diabetes''] else flags);
             flags = (if rnd (i + 3) < p_car cfg then flags @ [''cardio''] else flags)
         in if flags = [] then (''none'', i + 4) else (str_join ''_'' (sort flags), i + 4)))"

fun simulate_clusters :: "sampler_config \<Rightarrow> (nat \<Rightarrow> real) \<Rightarrow> nat \<Rightarrow> nat \<Rightarrow> string list" where
  \<comment> \<open>\<open>[simulate_patient() for _ in range(n)]\<close>, from position \<open>i\<close> of the random source\<close>
  "simulate_clusters cfg rnd i 0 = []"
| "simulate_clusters cfg rnd i (Suc n) =
     (case simulate_patient cfg rnd i of
        (cluster, i') \<Rightarrow> cluster # simulate_clusters cfg rnd i' n)"

fun counter_add :: "string \<Rightarrow> nat dict \<Rightarrow> nat dict" where
  "counter_add k [] = [(k, 1)]"
| "counter_add k ((k', n) # rest) =
     (if k = k' then (k', n + 1) # rest else (k', n) # counter_add k rest)"

definition Counter :: "string list \<Rightarrow> nat dict" where
  "Counter xs = foldl (\<lambda>counts k. counter_add k counts) [] xs"

definition estimate_cost :: "string \<Rightarrow> int" where
  "estimate_cost cluster =
     (if cluster = ''none'' then 0
      else (let keys = str_split (CHR ''_'') cluster in sum_list (map (\<lambda>k. dict_get costs k 0) keys)))"

fun prevalence_of :: "int \<Rightarrow> nat dict \<Rightarrow> py_error + real dict" where
  \<comment> \<open>\<open>{k: v / n_patients for k, v in counts.items()}\<close>; integer division by zero raises\<close>
  "prevalence_of n [] = Inr []"
| "prevalence_of n ((k, v) # rest) =
     (if n = 0 then Inl ZeroDivisionError
      else py_bind (prevalence_of n rest) (\<lambda>r. Inr ((k, real v / real_of_int n) # r)))"

fun total_cost_sum :: "nat dict \<Rightarrow> int dict \<Rightarrow> string list \<Rightarrow> py_error + int" where
  \<comment> \<open>\<open>sum(counts[k] * cost_by_cluster[k] for k in counts)\<close>; a \<open>Counter\<close> reads 0 for a missing key\<close>
  "total_cost_sum counts cost_by_cluster [] = Inr 0"
| "total_cost_sum counts cost_by_cluster (k # ks) =
     py_bind (subscript cost_by_cluster k) (\<lambda>c.
       py_bind (total_cost_sum counts cost_by_cluster ks) (\<lambda>s.
         Inr (int (dict_get counts k 0) * c + s)))"

record simulation_output =
  population :: int
  joint_prevalence :: "real dict"
  average_costs :: "int dict"
  total_cost :: int

definition run_sampler :: "sampler_config \<Rightarrow> (nat \<Rightarrow> real) \<Rightarrow> py_error + simulation_output" where
  "run_sampler cfg rnd =
     (let clusters = simulate_clusters cfg rnd 0 (nat (n_patients cfg));
          counts = Counter clusters;
          cost_by_cluster = map (\<lambda>k. (k, estimate_cost k)) (map fst counts);
          avg = map (\<lambda>k. (k, estimate_cost k)) (map fst counts)
      in py_bind (prevalence_of (n_patients cfg) counts) (\<lambda>prevalence.
         py_bind (total_cost_sum counts cost_by_cluster (map fst counts)) (\<lambda>tc.
           Inr \<lparr>population = n_patients cfg, joint_prevalence = prevalence,
                average_costs = avg, total_cost = tc\<rparr>)))"

definition written_json :: "simulation_output \<Rightarrow> mc_value dict" where
  \<comment> \<open>the object that \<open>json.dump(output, f)\<close> writes and \<open>json.load\<close> reads back\<close>
  "written_json out =
     [(''population'', MNum (real_of_int (population out))),
      (''joint_prevalence'', MObj (joint_prevalence out)),
      (''average_costs'', MObj (map (\<lambda>(k, c). (k, real_of_int c)) (average_costs out))),
      (''total_cost'', MNum (real_of_int (total_cost out)))]"

section \<open>Closed forms of the loops\<close>

text \<open>
  What the loops of \<open>calculate_savings\<close> compute, as sums. These definitions serve the
  proofs only: each is shown below to be what the loop returns.
\<close>

definition combined_cost :: "string \<Rightarrow> int" where
  "combined_cost k =
     (if str_contains ''Hypertension'' k then 2000 else 0)
     + (if str_contains ''Diabetes'' k then 12000 else 0)
     + (if str_contains ''Cardio'' k then 30000 else 0)"

definition joint_avoided :: "params \<Rightarrow> nat \<Rightarrow> string \<times> real \<Rightarrow> real" where
  "joint_avoided p year kv =
     discounted_value
       (improved_treated_osa p * snd kv * real_of_int (combined_cost (fst kv)) * (3625 / 10000))
       year (discount_rate p)"

definition single_avoided :: "params \<Rightarrow> real dict \<Rightarrow> nat \<Rightarrow> real" where
  "single_avoided p cp year =
     discounted_value (improved_treated_osa p * dict_get cp ''Hypertension'' 0 * (40 / 100) * 2000)
       year (discount_rate p)
     + discounted_value (improved_treated_osa p * dict_get cp ''Diabetes'' 0 * (25 / 100) * 12000)
       year (discount_rate p)
     + discounted_value
         (improved_treated_osa p * dict_get cp ''Cardiovascular Event'' 0 * (50 / 100) * 30000)
       year (discount_rate p)
     + discounted_value (improved_treated_osa p * dict_get cp ''Depression'' 0 * (30 / 100) * 5000)
       year (discount_rate p)"

definition year_avoided :: "params \<Rightarrow> real dict \<Rightarrow> real dict \<Rightarrow> nat \<Rightarrow> real" where
  "year_avoided p cp jp year =
     single_avoided p cp year + sum_list (map (joint_avoided p year) jp)"

definition year_treatment :: "params \<Rightarrow> nat \<Rightarrow> real" where
  "year_treatment p year =
     discounted_value
       (improved_treated_osa p
          * real_of_int (if year = 1 then cost_treatment p + cost_diagnosis p else cost_treatment p))
       year (discount_rate p)"

definition year_row :: "params \<Rightarrow> real dict \<Rightarrow> real dict \<Rightarrow> nat \<Rightarrow> annual_record" where
  "year_row p cp jp year =
     \<lparr>Year = year, Cost_Avoided = year_avoided p cp jp year,
      Treatment_Cost = year_treatment p year,
      Net_Savings = year_avoided p cp jp year - year_treatment p year\<rparr>"

definition single_weight :: "real dict \<Rightarrow> real" where
  "single_weight cp =
     dict_get cp ''Hypertension'' 0 * (40 / 100) * 2000
     + dict_get cp ''Diabetes'' 0 * (25 / 100) * 12000
     + dict_get cp ''Cardiovascular Event'' 0 * (50 / 100) * 30000
     + dict_get cp ''Depression'' 0 * (30 / 100) * 5000"

definition joint_weight :: "real dict \<Rightarrow> real" where
  "joint_weight jp =
     (\<Sum>kv\<leftarrow>jp. snd kv * real_of_int (combined_cost (fst kv)) * (3625 / 10000))"

section \<open>The loops return their closed forms\<close>

text \<open>
  The subscripts \<open>risk_reduction[condition]\<close> and \<open>comorbidity_costs[...]\<close> never miss:
  every key they are asked for is a key of the two tables.
\<close>

lemma subscript_costs:
  "subscript comorbidity_costs ''Hypertension'' = Inr 2000"
  "subscript comorbidity_costs ''Diabetes'' = Inr 12000"
  "subscript comorbidity_costs ''Cardiovascular Event'' = Inr 30000"
  "subscript comorbidity_costs ''Depression'' = Inr 5000"
  by (simp_all add: subscript_def comorbidity_costs_def)

lemma subscript_risk:
  "subscript risk_reduction ''Hypertension'' = Inr (40 / 100)"
  "subscript risk_reduction ''Diabetes'' = Inr (25 / 100)"
  "subscript risk_reduction ''Cardiovascular Event'' = Inr (50 / 100)"
  "subscript risk_reduction ''Depression'' = Inr (30 / 100)"
  by (simp_all add: subscript_def risk_reduction_def)

lemma cost_keys:
  "map fst comorbidity_costs =
     [''Hypertension'', ''Diabetes'', ''Cardiovascular Event'', ''Depression'']"
  by (simp add: comorbidity_costs_def)

lemma mean_risk: "np_mean (map snd risk_reduction) = 3625 / 10000"
  by (simp add: np_mean_def risk_reduction_def)

lemma conditions_loop_eq:
  "conditions_loop p cp year (map fst comorbidity_costs) ys = Inr (ys + single_avoided p cp year)"
  by (simp add: cost_keys subscript_costs subscript_risk py_bind_def single_avoided_def Let_def mult_ac)

lemma cost_estimate_eq: "cost_estimate k = Inr (combined_cost k)"
  by (simp add: cost_estimate_def combined_cost_def subscript_costs py_bind_def)

lemma joint_loop_eq:
  "joint_loop p year jp ys = Inr (ys + sum_list (map (joint_avoided p year) jp))"
  by (induction jp arbitrary: ys)
     (auto simp: cost_estimate_eq py_bind_def mean_risk joint_avoided_def Let_def)

lemma year_body_eq:
  "year_body p cp jp year (tot, data) =
     Inr (tot + Net_Savings (year_row p cp jp year), data @ [year_row p cp jp year])"
  by (simp add: year_body_def conditions_loop_eq joint_loop_eq py_bind_def Let_def
        year_row_def year_avoided_def year_treatment_def)

lemma years_loop_eq:
  "years_loop p cp jp ys (tot, data) =
     Inr (tot + sum_list (map (\<lambda>y. Net_Savings (year_row p cp jp y)) ys),
          data @ map (year_row p cp jp) ys)"
  by (induction ys arbitrary: tot data) (simp_all add: year_body_eq py_bind_def add.assoc)

lemma calculate_savings_eq:
  "calculate_savings p cp jp =
     Inr (sum_list (map (\<lambda>y. Net_Savings (year_row p cp jp y)) years),
          map (year_row p cp jp) years)"
  by (simp add: calculate_savings_def years_loop_eq)

text \<open>The substring test is Python's \<open>in\<close>: some part of the string is the pattern.\<close>

lemma starts_with_iff: "starts_with sub s \<longleftrightarrow> (\<exists>post. s = sub @ post)"
  by (induction sub s rule: starts_with.induct) auto

lemma str_contains_iff: "str_contains sub s \<longleftrightarrow> (\<exists>pre post. s = pre @ sub @ post)"
proof (induction s)
  case Nil
  then show ?case by auto
next
  case (Cons c cs)
  show ?case
  proof
    assume "str_contains sub (c # cs)"
    then consider "starts_with sub (c # cs)" | "str_contains sub cs" by auto
    then show "\<exists>pre post. c # cs = pre @ sub @ post"
    proof cases
      case 1
      then obtain post where "c # cs = sub @ post" by (auto simp: starts_with_iff)
      then have "c # cs = [] @ sub @ post" by simp
      then show ?thesis by blast
    next
      case 2
      then obtain pre post where "cs = pre @ sub @ post" using Cons.IH by auto
      then have "c # cs = (c # pre) @ sub @ post" by simp
      then show ?thesis by blast
    qed
  next
    assume "\<exists>pre post. c # cs = pre @ sub @ post"
    then obtain pre post where e: "c # cs = pre @ sub @ post" by auto
    show "str_contains sub (c # cs)"
    proof (cases pre)
      case Nil
      then have "starts_with sub (c # cs)" using e by (auto simp: starts_with_iff)
      then show ?thesis by simp
    next
      case (Cons a pre')
      then have "cs = pre' @ sub @ post" using e by simp
      then have "str_contains sub cs" using Cons.IH by auto
      then show ?thesis by simp
    qed
  qed
qed

text \<open>The data frame has one row for each year from 1 to 20.\<close>

lemma filter_eq_distinct:
  "distinct xs \<Longrightarrow> t \<in> set xs \<Longrightarrow> filter (\<lambda>y. f y = t) (map g xs) = [g t]"
  if "\<And>y. f (g y) = y"
  using that by (induction xs) (auto simp: filter_empty_conv)

lemma in_year_eq:
  assumes "t \<in> set years"
  shows "in_year col (calculate_savings p cp jp) t = [col (year_row p cp jp t)]"
proof -
  have "distinct years" by (simp add: years_def)
  moreover have "\<And>y. Year (year_row p cp jp y) = y" by (simp add: year_row_def)
  ultimately have "filter (\<lambda>row. Year row = t) (map (year_row p cp jp) years) = [year_row p cp jp t]"
    using assms filter_eq_distinct [of Year "year_row p cp jp" years t] by simp
  then show ?thesis by (simp add: in_year_def result_df_def calculate_savings_eq)
qed

lemma foldl_plus: "foldl (+) a xs = a + sum_list (xs :: real list)"
  by (induction xs arbitrary: a) (simp_all add: add.assoc)

text \<open>
  The cost avoided of a year is the newly treated population times a weight that depends
  on the two profiles only, discounted.
\<close>

lemma joint_sum_factor:
  "sum_list (map (joint_avoided p t) jp) =
     improved_treated_osa p * joint_weight jp / (1 + discount_rate p) ^ t"
  by (induction jp)
     (simp_all add: joint_weight_def joint_avoided_def discounted_value_def algebra_simps
        add_divide_distrib)

lemma year_avoided_factor:
  "year_avoided p cp jp t =
     improved_treated_osa p * (single_weight cp + joint_weight jp) / (1 + discount_rate p) ^ t"
  by (simp add: year_avoided_def joint_sum_factor single_avoided_def single_weight_def
        discounted_value_def algebra_simps add_divide_distrib)

lemma combined_cost_nonneg: "0 \<le> combined_cost k"
  by (simp add: combined_cost_def)

lemma joint_weight_nonneg: "\<forall>v \<in> snd ` set jp. 0 \<le> v \<Longrightarrow> 0 \<le> joint_weight jp"
  unfolding joint_weight_def
  by (induction jp) (auto simp: combined_cost_nonneg)

lemma dict_get_nonneg: "\<forall>v \<in> snd ` set d. 0 \<le> v \<Longrightarrow> 0 \<le> dict_get d k (0::real)"
  by (auto simp: dict_get_def split: option.splits dest!: map_of_SomeD)

lemma single_weight_nonneg: "\<forall>v \<in> snd ` set cp. 0 \<le> v \<Longrightarrow> 0 \<le> single_weight cp"
  by (simp add: single_weight_def dict_get_nonneg)

lemma joint_loop_single:
  "joint_loop p t [(k, v)] ys =
     Inr (ys + discounted_value
                 (improved_treated_osa p * v * real_of_int (combined_cost k) * (3625 / 10000))
                 t (discount_rate p))"
  by (simp add: joint_loop_eq joint_avoided_def)

text \<open>The newly treated population is linear in the adherence.\<close>

lemma improved_adherence:
  "improved_treated_osa (p\<lparr>treatment_adherence := a\<rparr>) =
     a * (real_of_int (population_size p) * osa_prevalence p
            * (target_diagnosis_rate p - current_diagnosis_rate p))"
  by (simp add: improved_treated_osa_def)

lemma single_weight_pos:
  assumes "\<forall>v \<in> snd ` set cp. 0 \<le> v"
    and "c \<in> set (map fst comorbidity_costs)" and "0 < dict_get cp c 0"
  shows "0 < single_weight cp"
proof -
  have n: "0 \<le> dict_get cp k 0" for k using assms(1) by (rule dict_get_nonneg)
  have "c = ''Hypertension'' \<or> c = ''Diabetes'' \<or> c = ''Cardiovascular Event'' \<or> c = ''Depression''"
    using assms(2) by (simp add: cost_keys)
  then show ?thesis
  proof (elim disjE)
    assume "c = ''Hypertension''"
    then have "0 < dict_get cp ''Hypertension'' 0" using assms(3) by simp
    with n [of "''Diabetes''"] n [of "''Cardiovascular Event''"] n [of "''Depression''"]
    show ?thesis by (simp add: single_weight_def add_pos_nonneg)
  next
    assume "c = ''Diabetes''"
    then have "0 < dict_get cp ''Diabetes'' 0" using assms(3) by simp
    with n [of "''Hypertension''"] n [of "''Cardiovascular Event''"] n [of "''Depression''"]
    show ?thesis by (simp add: single_weight_def add_pos_nonneg add_nonneg_pos)
  next
    assume "c = ''Cardiovascular Event''"
    then have "0 < dict_get cp ''Cardiovascular Event'' 0" using assms(3) by simp
    with n [of "''Hypertension''"] n [of "''Diabetes''"] n [of "''Depression''"]
    show ?thesis by (simp add: single_weight_def add_pos_nonneg add_nonneg_pos)
  next
    assume "c = ''Depression''"
    then have "0 < dict_get cp ''Depression'' 0" using assms(3) by simp
    with n [of "''Hypertension''"] n [of "''Diabetes''"] n [of "''Cardiovascular Event''"]
    show ?thesis by (simp add: single_weight_def add_nonneg_pos)
  qed
qed

lemma in_year_adherence:
  assumes "t \<in> {1..20}"
  shows "in_year Cost_Avoided (calculate_savings (p\<lparr>treatment_adherence := a\<rparr>) cp jp) t =
     [a * (real_of_int (population_size p) * osa_prevalence p
              * (target_diagnosis_rate p - current_diagnosis_rate p))
        * (single_weight cp + joint_weight jp) / (1 + discount_rate p) ^ t]"
proof -
  from assms have "t \<in> set years" by (simp add: years_def)
  then show ?thesis
    by (simp add: in_year_eq year_row_def year_avoided_factor improved_adherence)
qed

section \<open>The sampler returns\<close>

text \<open>
  The division \<open>v / n_patients\<close> is reached only for a cluster that was counted, that is
  when at least one patient was simulated, and \<open>cost_by_cluster[k]\<close> is asked only for
  the keys it was built from: no run of the sampler raises.
\<close>

lemma counter_add_nonempty: "counter_add k counts \<noteq> []"
  by (cases counts) (auto split: if_splits)

lemma counter_fold_empty:
  "foldl (\<lambda>counts k. counter_add k counts) c xs = [] \<longleftrightarrow> c = [] \<and> xs = []"
  by (induction xs arbitrary: c) (auto simp: counter_add_nonempty)

lemma Counter_empty_iff: "Counter xs = [] \<longleftrightarrow> xs = []"
  by (simp add: Counter_def counter_fold_empty)

lemma length_simulate_clusters: "length (simulate_clusters cfg rnd i n) = n"
  by (induction n arbitrary: i) (auto split: prod.splits)

lemma prevalence_of_returns: "n \<noteq> 0 \<Longrightarrow> \<exists>r. prevalence_of n counts = Inr r"
  by (induction counts) (auto simp: py_bind_def)

lemma total_cost_sum_returns:
  "\<exists>s. total_cost_sum counts (map (\<lambda>k. (k, estimate_cost k)) ks') ks = Inr s"
  if "set ks \<subseteq> set ks'"
  using that
proof (induction ks)
  case Nil
  then show ?case by simp
next
  case (Cons k ks)
  then have "k \<in> set ks'" by simp
  then have "map_of (map (\<lambda>k. (k, estimate_cost k)) ks') k = Some (estimate_cost k)"
    by (induction ks') auto
  with Cons show ?case by (auto simp: py_bind_def subscript_def)
qed

lemma run_sampler_returns: "\<exists>out. run_sampler cfg rnd = Inr out"
proof (cases "n_patients cfg = 0")
  case True
  then show ?thesis by (simp add: run_sampler_def Counter_def py_bind_def)
next
  case False
  obtain r where r: "prevalence_of (n_patients cfg)
      (Counter (simulate_clusters cfg rnd 0 (nat (n_patients cfg)))) = Inr r"
    using prevalence_of_returns [OF False] by blast
  obtain s where s: "total_cost_sum (Counter (simulate_clusters cfg rnd 0 (nat (n_patients cfg))))
      (map (\<lambda>k. (k, estimate_cost k)) (map fst (Counter (simulate_clusters cfg rnd 0 (nat (n_patients cfg))))))
      (map fst (Counter (simulate_clusters cfg rnd 0 (nat (n_patients cfg))))) = Inr s"
    using total_cost_sum_returns [of "map fst (Counter (simulate_clusters cfg rnd 0 (nat (n_patients cfg))))"] by blast
  show ?thesis unfolding run_sampler_def Let_def r s py_bind_def by simp
qed

text \<open>
  A run of two patients: the first falls into the three-condition slice, the second into
  no joint slice and then into all three single conditions, whose labels are sorted.
\<close>

lemma sampler_two_patients:
  "run_sampler (default_sampler_config\<lparr>n_patients := 2\<rparr>) (\<lambda>i. if i = 0 then 1 / 100 else if i = 1 then 9 / 10 else 1 / 20)
   = Inr \<lparr>population = 2,
          joint_prevalence = [(''hypertension_diabetes_cardio'', 1 / 2),
                              (''cardio_diabetes_hypertension'', 1 / 2)],
          average_costs = [(''hypertension_diabetes_cardio'', 44000),
                           (''cardio_diabetes_hypertension'', 44000)],
          total_cost = 88000\<rparr>"
  by code_simp

section \<open>The claims about the savings projector\<close>

text \<open>
  C1. The total NPV that \<open>calculate_savings\<close> returns is the sum of the Net Savings column
  of the data frame it returns, which has exactly the 20 rows of the years 1 to 20: the
  running total adds the same values in the same order, left to right from 0.
\<close>

theorem total_npv_is_sum_of_net_savings:
  "\<exists>npv df. calculate_savings p cp jp = Inr (npv, df) \<and> length df = 20 \<and>
     map Year df = [1..<21] \<and>
     npv = sum_list (map Net_Savings df) \<and> npv = foldl (+) 0 (map Net_Savings df)"
  by (simp add: calculate_savings_eq foldl_plus comp_def) (simp add: years_def year_row_def comp_def)

theorem total_npv_is_sum_of_net_savings_witness:
  "\<exists>npv df. calculate_savings default_params default_comorbidity_prevalence
       default_joint_prevalence = Inr (npv, df) \<and> length df = 20 \<and>
     map Year df = [1..<21] \<and>
     npv = sum_list (map Net_Savings df) \<and> npv = foldl (+) 0 (map Net_Savings df)"
  by (rule total_npv_is_sum_of_net_savings)

text \<open>
  C2. In every year from 1 to 20, the cost avoided with a joint profile is the cost avoided
  with the empty joint profile plus, for each entry of the joint profile, the discounted
  value of newly treated * joint fraction * combined cost * mean of the four risk
  reductions. The combined cost adds 2000, 12000 and 30000 (the cost table's entries for
  Hypertension, Diabetes and Cardiovascular Event) for each of the substrings
  "Hypertension", "Diabetes" and "Cardio" that the label contains.
\<close>

theorem joint_entries_add_discounted_cost:
  "t \<in> {1..20} \<Longrightarrow>
     \<exists>base. in_year Cost_Avoided (calculate_savings p cp []) t = [base] \<and>
       in_year Cost_Avoided (calculate_savings p cp jp) t =
         [base + (\<Sum>(joint_key, joint_val)\<leftarrow>jp.
            discounted_value
              (improved_treated_osa p * joint_val
                 * real_of_int
                     ((if str_contains ''Hypertension'' joint_key then 2000 else 0)
                      + (if str_contains ''Diabetes'' joint_key then 12000 else 0)
                      + (if str_contains ''Cardio'' joint_key then 30000 else 0))
                 * ((40 / 100 + 25 / 100 + 50 / 100 + 30 / 100) / 4))
              t (discount_rate p))]"
proof -
  assume "t \<in> {1..20}"
  then have t: "t \<in> set years" by (simp add: years_def)
  have "joint_avoided p t =
          (\<lambda>(joint_key, joint_val).
            discounted_value
              (improved_treated_osa p * joint_val
                 * real_of_int
                     ((if str_contains ''Hypertension'' joint_key then 2000 else 0)
                      + (if str_contains ''Diabetes'' joint_key then 12000 else 0)
                      + (if str_contains ''Cardio'' joint_key then 30000 else 0))
                 * ((40 / 100 + 25 / 100 + 50 / 100 + 30 / 100) / 4))
              t (discount_rate p))"
    by (rule ext) (simp add: joint_avoided_def combined_cost_def split_def)
  then show ?thesis
    using t by (simp add: in_year_eq year_row_def year_avoided_def)
qed

theorem joint_entries_add_discounted_cost_witness:
  "(1::nat) \<in> {1..20} \<and>
   (\<exists>base. in_year Cost_Avoided
              (calculate_savings default_params default_comorbidity_prevalence []) 1 = [base] \<and>
      in_year Cost_Avoided
        (calculate_savings default_params default_comorbidity_prevalence
           [(''Hypertension + Diabetes'', 12 / 100)]) 1 =
        [base + 4500 * (12 / 100) * 14000 * (3625 / 10000) / (103 / 100)])"
  using joint_entries_add_discounted_cost
          [of 1 default_params default_comorbidity_prevalence
             "[(''Hypertension + Diabetes'', 12 / 100)]"]
  by (simp add: default_params_def improved_treated_osa_def discounted_value_def)

text \<open>
  C3. In every year from 1 to 20, the recorded Treatment Cost is the undiscounted treatment
  cost divided by (1 + rate) ^ year, where the undiscounted cost is newly treated * annual
  treatment cost, plus, in year 1 only, the diagnosis cost of the newly treated (the code
  adds the diagnosis cost to the annual cost of each newly treated patient, as the spec's
  fixture \<open>100000*0.25*0.30*0.60*(1500+1000)/1.03\<close> does).
\<close>

theorem treatment_cost_per_year:
  "t \<in> {1..20} \<Longrightarrow>
     in_year Treatment_Cost (calculate_savings p cp jp) t =
       [(improved_treated_osa p * real_of_int (cost_treatment p)
           + (if t = 1 then improved_treated_osa p * real_of_int (cost_diagnosis p) else 0))
          / (1 + discount_rate p) ^ t]"
  by (simp add: in_year_eq years_def year_row_def year_treatment_def discounted_value_def
        algebra_simps)

theorem treatment_cost_per_year_witness:
  "(1::nat) \<in> {1..20} \<and>
   in_year Treatment_Cost
     (calculate_savings default_params default_comorbidity_prevalence default_joint_prevalence) 1
     = [100000 * (25 / 100) * (30 / 100) * (60 / 100) * (1500 + 1000) / (103 / 100)]"
  using treatment_cost_per_year
          [of 1 default_params default_comorbidity_prevalence default_joint_prevalence]
  by (simp add: default_params_def improved_treated_osa_def)

text \<open>
  C4, as stated, fails: the sliders of the current and the target diagnosis rate are
  independent, and with the target below the current rate the newly treated population is
  negative, so that a higher adherence lowers the cost avoided. Here the current rate is
  50 percent, the target 20 percent, and year 1 falls from about -1048544 at adherence 0.6
  to about -1572816 at adherence 0.9.
\<close>

theorem adherence_monotone_counterexample:
  "in_year Cost_Avoided
     (calculate_savings
        (default_params\<lparr>current_diagnosis_rate := 50 / 100, target_diagnosis_rate := 20 / 100,
                        treatment_adherence := 60 / 100\<rparr>)
        [(''Hypertension'', 30 / 100)] []) 1 = [- 108000000 / 103] \<and>
   in_year Cost_Avoided
     (calculate_savings
        (default_params\<lparr>current_diagnosis_rate := 50 / 100, target_diagnosis_rate := 20 / 100,
                        treatment_adherence := 90 / 100\<rparr>)
        [(''Hypertension'', 30 / 100)] []) 1 = [- 162000000 / 103] \<and>
   (60 / 100 :: real) < 90 / 100 \<and> (- 162000000 / 103 :: real) < - 108000000 / 103"
  by (simp add: in_year_eq years_def year_row_def year_avoided_def single_avoided_def
        dict_get_def discounted_value_def improved_treated_osa_def default_params_def)

text \<open>
  C4, amended. Write B for population * OSA prevalence * (target rate - current rate) and
  W for the weight of the two profiles: the sum over the four conditions of prevalence *
  risk reduction * cost, plus the sum over the joint entries of joint fraction * combined
  cost * mean risk reduction. With a discount rate above -1 and adherence values a1 < a2,
  the cost avoided of each of the 20 years is strictly higher under a2 exactly when
  B * W > 0, and at least as high exactly when B * W >= 0. In particular it never falls
  when the population and the OSA prevalence are non-negative, the target rate is at least
  the current rate and no prevalence or joint fraction is negative.
\<close>

theorem adherence_monotone:
  assumes "- 1 < discount_rate p" and "a1 < a2" and "t \<in> {1..20}"
  shows "\<exists>x1 x2.
     in_year Cost_Avoided (calculate_savings (p\<lparr>treatment_adherence := a1\<rparr>) cp jp) t = [x1] \<and>
     in_year Cost_Avoided (calculate_savings (p\<lparr>treatment_adherence := a2\<rparr>) cp jp) t = [x2] \<and>
     (x1 < x2 \<longleftrightarrow>
        0 < real_of_int (population_size p) * osa_prevalence p
              * (target_diagnosis_rate p - current_diagnosis_rate p)
              * (single_weight cp + joint_weight jp)) \<and>
     (x1 \<le> x2 \<longleftrightarrow>
        0 \<le> real_of_int (population_size p) * osa_prevalence p
              * (target_diagnosis_rate p - current_diagnosis_rate p)
              * (single_weight cp + joint_weight jp)) \<and>
     (0 \<le> population_size p \<and> 0 \<le> osa_prevalence p
        \<and> current_diagnosis_rate p \<le> target_diagnosis_rate p
        \<and> (\<forall>v \<in> snd ` set cp. 0 \<le> v) \<and> (\<forall>v \<in> snd ` set jp. 0 \<le> v) \<longrightarrow> x1 \<le> x2)"
proof -
  define B where "B = real_of_int (population_size p) * osa_prevalence p
                        * (target_diagnosis_rate p - current_diagnosis_rate p)"
  define W where "W = single_weight cp + joint_weight jp"
  define D where "D = (1 + discount_rate p) ^ t"
  define c where "c = B * W / D"
  have D: "0 < D" using assms(1) by (simp add: D_def)
  have pos: "0 < c \<longleftrightarrow> 0 < B * W" using D by (simp add: c_def zero_less_divide_iff)
  have nonneg: "0 \<le> c \<longleftrightarrow> 0 \<le> B * W" using D by (simp add: c_def zero_le_divide_iff)
  have "a1 * c < a2 * c \<longleftrightarrow> 0 < c"
    using assms(2) by (auto simp: mult_less_cancel_right)
  with pos have lt: "a1 * c < a2 * c \<longleftrightarrow> 0 < B * W" by simp
  have "a1 * c \<le> a2 * c \<longleftrightarrow> 0 \<le> c"
    using assms(2) by (auto simp: mult_le_cancel_right not_less)
  with nonneg have le: "a1 * c \<le> a2 * c \<longleftrightarrow> 0 \<le> B * W" by simp
  have mono: "a1 * c \<le> a2 * c"
    if s: "0 \<le> population_size p \<and> 0 \<le> osa_prevalence p
        \<and> current_diagnosis_rate p \<le> target_diagnosis_rate p
        \<and> (\<forall>v \<in> snd ` set cp. 0 \<le> v) \<and> (\<forall>v \<in> snd ` set jp. 0 \<le> v)"
  proof -
    from s have "0 \<le> B" by (simp add: B_def)
    moreover from s have "0 \<le> W"
      using single_weight_nonneg [of cp] joint_weight_nonneg [of jp] by (simp add: W_def)
    ultimately have "0 \<le> B * W" by simp
    then show ?thesis using le by simp
  qed
  have e1: "in_year Cost_Avoided (calculate_savings (p\<lparr>treatment_adherence := a1\<rparr>) cp jp) t
            = [a1 * c]"
    using in_year_adherence [OF assms(3)] by (simp add: B_def W_def D_def c_def)
  have e2: "in_year Cost_Avoided (calculate_savings (p\<lparr>treatment_adherence := a2\<rparr>) cp jp) t
            = [a2 * c]"
    using in_year_adherence [OF assms(3)] by (simp add: B_def W_def D_def c_def)
  from e1 e2 lt le mono show ?thesis unfolding B_def W_def by blast
qed

text \<open>
  A witness with all four single-condition sliders at 0 and the default joint sliders: the
  weight comes from the joint profile alone, and a higher adherence strictly raises the
  cost avoided of year 1.
\<close>

theorem adherence_monotone_witness:
  "\<exists>x1 x2.
     in_year Cost_Avoided
       (calculate_savings (default_params\<lparr>treatment_adherence := 30 / 100\<rparr>)
          (manual_comorbidity_prevalence 0 0 0 0) default_joint_prevalence) 1 = [x1] \<and>
     in_year Cost_Avoided
       (calculate_savings (default_params\<lparr>treatment_adherence := 60 / 100\<rparr>)
          (manual_comorbidity_prevalence 0 0 0 0) default_joint_prevalence) 1 = [x2] \<and>
     x1 < x2 \<and> x1 \<le> x2"
proof -
  have 1: "- 1 < discount_rate default_params" by (simp add: default_params_def)
  have 2: "(30 / 100 :: real) < 60 / 100" by simp
  have 3: "(1::nat) \<in> {1..20}" by simp
  have w: "single_weight (manual_comorbidity_prevalence 0 0 0 0) = 0"
    by (simp add: single_weight_def manual_comorbidity_prevalence_def dict_get_def)
  have j: "joint_weight default_joint_prevalence = 229825 / 100"
    by (simp add: joint_weight_def default_joint_prevalence_def manual_joint_prevalence_def
          combined_cost_def)
  have 4: "0 < real_of_int (population_size default_params) * osa_prevalence default_params
              * (target_diagnosis_rate default_params - current_diagnosis_rate default_params)
              * (single_weight (manual_comorbidity_prevalence 0 0 0 0)
                 + joint_weight default_joint_prevalence)"
    by (simp add: w j default_params_def)
  from adherence_monotone [OF 1 2 3, of "manual_comorbidity_prevalence 0 0 0 0"
         default_joint_prevalence] 4
  show ?thesis by (metis less_imp_le)
qed

text \<open>
  C5, as stated, fails: with the inputs of the example the cost avoided of year 1 is
  108000000 / 103, about 1048543.69. It is neither the product that the claim writes, which
  is 540 / 1.03 and leaves out the cost of Hypertension, nor about 1572.82.
\<close>

theorem example_year_one_counterexample:
  "in_year Cost_Avoided (calculate_savings default_params [(''Hypertension'', 30 / 100)] []) 1
     = [108000000 / 103] \<and>
   (108000000 / 103 :: real)
     \<noteq> 100000 * (25 / 100) * (30 / 100) * (60 / 100) * (30 / 100) * (40 / 100) / (103 / 100) \<and>
   (157282 / 100 + 1 :: real) < 108000000 / 103"
  by (simp add: in_year_eq years_def year_row_def year_avoided_def single_avoided_def
        dict_get_def discounted_value_def improved_treated_osa_def default_params_def)

text \<open>
  C5, amended. With the inputs of the example, the cost avoided of year 1 is
  100000 * 0.25 * 0.30 * 0.60 * 0.30 * 0.40 * 2000 / 1.03: the reduced cases are multiplied
  by the cost of Hypertension, 2000, before they are discounted.
\<close>

theorem example_year_one_cost_avoided:
  "in_year Cost_Avoided (calculate_savings default_params [(''Hypertension'', 30 / 100)] []) 1
     = [100000 * (25 / 100) * (30 / 100) * (60 / 100) * (30 / 100) * (40 / 100) * 2000
          / (103 / 100)]"
  by (simp add: in_year_eq years_def year_row_def year_avoided_def single_avoided_def
        dict_get_def discounted_value_def improved_treated_osa_def default_params_def)

text \<open>
  C6. When the target diagnosis rate equals the current one, the newly treated population
  is 0 and the cost avoided of each of the 20 years is 0.
\<close>

theorem equal_rates_avoid_nothing:
  "target_diagnosis_rate p = current_diagnosis_rate p \<Longrightarrow>
     improved_treated_osa p = 0 \<and>
     (\<forall>t \<in> {1..20}. in_year Cost_Avoided (calculate_savings p cp jp) t = [0])"
proof -
  assume eq: "target_diagnosis_rate p = current_diagnosis_rate p"
  then have z: "improved_treated_osa p = 0" by (simp add: improved_treated_osa_def)
  have "in_year Cost_Avoided (calculate_savings p cp jp) t = [0]" if "t \<in> {1..20}" for t
  proof -
    from that have "t \<in> set years" by (simp add: years_def)
    then show ?thesis by (simp add: in_year_eq year_row_def year_avoided_factor z)
  qed
  with z show ?thesis by blast
qed

theorem equal_rates_avoid_nothing_witness:
  "target_diagnosis_rate (default_params\<lparr>target_diagnosis_rate := 20 / 100\<rparr>)
     = current_diagnosis_rate (default_params\<lparr>target_diagnosis_rate := 20 / 100\<rparr>) \<and>
   improved_treated_osa (default_params\<lparr>target_diagnosis_rate := 20 / 100\<rparr>) = 0 \<and>
   in_year Cost_Avoided
     (calculate_savings (default_params\<lparr>target_diagnosis_rate := 20 / 100\<rparr>)
        default_comorbidity_prevalence default_joint_prevalence) 7 = [0]"
proof -
  have h: "target_diagnosis_rate (default_params\<lparr>target_diagnosis_rate := 20 / 100\<rparr>)
           = current_diagnosis_rate (default_params\<lparr>target_diagnosis_rate := 20 / 100\<rparr>)"
    by (simp add: default_params_def)
  have "(7::nat) \<in> {1..20}" by simp
  with equal_rates_avoid_nothing [OF h] h show ?thesis by blast
qed

text \<open>C7. With discount rate 0, discounting returns the value unchanged, in every year.\<close>

theorem discounted_value_rate_zero: "discounted_value v year 0 = v"
  by (simp add: discounted_value_def)

theorem discounted_value_rate_zero_witness: "discounted_value 1000 20 0 = 1000"
  by (rule discounted_value_rate_zero)

text \<open>
  C10. The label "All Three" contains none of "Hypertension", "Diabetes" and "Cardio", so
  its cost estimate is 0, its turn of the joint loop leaves the year's cost avoided as it
  was, and the whole result is the one of the joint profile without that entry, whatever
  the entry's joint fraction. In particular the fourth slider of the manual joint
  probabilities, whose entry has this label, has no effect on the result.
\<close>

theorem all_three_contributes_nothing:
  "cost_estimate ''All Three'' = Inr 0 \<and>
   joint_loop p t [(''All Three'', v)] ys = Inr ys \<and>
   calculate_savings p cp (jp1 @ (''All Three'', v) # jp2) = calculate_savings p cp (jp1 @ jp2) \<and>
   calculate_savings p cp (manual_joint_prevalence hyp_dia hyp_car dia_car all3)
     = calculate_savings p cp (manual_joint_prevalence hyp_dia hyp_car dia_car 0)"
proof -
  have c: "combined_cost ''All Three'' = 0" by (simp add: combined_cost_def)
  have "year_row p cp (jp1 @ (''All Three'', v) # jp2) = year_row p cp (jp1 @ jp2)"
    by (rule ext) (simp add: year_row_def year_avoided_def joint_avoided_def c discounted_value_def)
  then have r: "calculate_savings p cp (jp1 @ (''All Three'', v) # jp2)
                  = calculate_savings p cp (jp1 @ jp2)"
    by (simp add: calculate_savings_eq)
  have e: "cost_estimate ''All Three'' = Inr 0"
    by (simp add: cost_estimate_eq c)
  have l: "joint_loop p t [(''All Three'', v)] ys = Inr ys"
    unfolding joint_loop_single c by (simp add: discounted_value_def)
  have "year_row p cp (manual_joint_prevalence hyp_dia hyp_car dia_car all3)
          = year_row p cp (manual_joint_prevalence hyp_dia hyp_car dia_car 0)"
    by (rule ext)
       (simp add: manual_joint_prevalence_def year_row_def year_avoided_def joint_avoided_def c
          discounted_value_def)
  then have m: "calculate_savings p cp (manual_joint_prevalence hyp_dia hyp_car dia_car all3)
                  = calculate_savings p cp (manual_joint_prevalence hyp_dia hyp_car dia_car 0)"
    by (simp add: calculate_savings_eq)
  from e l r m show ?thesis by blast
qed

theorem all_three_contributes_nothing_witness:
  "cost_estimate ''All Three'' = Inr 0 \<and>
   joint_loop default_params 1 [(''All Three'', 3 / 100)] 5 = Inr 5 \<and>
   calculate_savings default_params default_comorbidity_prevalence
     ([(''Diabetes + Cardio'', 5 / 100)] @ (''All Three'', 3 / 100) # [])
   = calculate_savings default_params default_comorbidity_prevalence
       ([(''Diabetes + Cardio'', 5 / 100)] @ []) \<and>
   calculate_savings default_params default_comorbidity_prevalence
     (manual_joint_prevalence 12 8 5 3)
   = calculate_savings default_params default_comorbidity_prevalence
       (manual_joint_prevalence 12 8 5 0)"
  by (rule all_three_contributes_nothing)

section \<open>The claims about the upload path and the sampler\<close>

text \<open>
  C8. When the uploaded record has no \<open>joint_prevalence\<close> field or has an object there,
  the upload returns the two profiles: Depression is 0.25 whatever the record holds, and
  each of the seven entries read from the record is the record's value for its key, or 0
  when the key is missing.
\<close>

theorem upload_defaults:
  assumes "dict_get mc_data ''joint_prevalence'' (MObj []) = MObj raw"
  shows "\<exists>cp jp. upload_profiles mc_data = Inr (cp, jp) \<and>
     map_of cp ''Depression'' = Some (25 / 100) \<and>
     (\<forall>(k, k') \<in> set [(''hypertension'', ''Hypertension''), (''diabetes'', ''Diabetes''),
                      (''cardio'', ''Cardiovascular Event'')].
        map_of cp k' = Some (case map_of raw k of None \<Rightarrow> 0 | Some v \<Rightarrow> v)) \<and>
     (\<forall>(k, k') \<in> set [(''hypertension_diabetes'', ''Hypertension + Diabetes''),
                      (''hypertension_cardio'', ''Hypertension + Cardio''),
                      (''diabetes_cardio'', ''Diabetes + Cardio''),
                      (''hypertension_diabetes_cardio'', ''All Three'')].
        map_of jp k' = Some (case map_of raw k of None \<Rightarrow> 0 | Some v \<Rightarrow> v))"
  using assms by (simp add: upload_profiles_def dict_get_def)

theorem upload_defaults_witness:
  "\<exists>cp jp. upload_profiles
       (written_json \<lparr>population = 10, joint_prevalence = [(''none'', 7 / 10), (''diabetes'', 3 / 10)],
          average_costs = [(''none'', 0), (''diabetes'', 12000)], total_cost = 36000\<rparr>)
       = Inr (cp, jp) \<and>
     map_of cp ''Depression'' = Some (25 / 100) \<and>
     map_of cp ''Hypertension'' = Some 0 \<and> map_of cp ''Diabetes'' = Some (3 / 10) \<and>
     map_of cp ''Cardiovascular Event'' = Some 0 \<and>
     map_of jp ''Hypertension + Diabetes'' = Some 0 \<and> map_of jp ''Hypertension + Cardio'' = Some 0 \<and>
     map_of jp ''Diabetes + Cardio'' = Some 0 \<and> map_of jp ''All Three'' = Some 0"
  using upload_defaults
    [of "written_json \<lparr>population = 10, joint_prevalence = [(''none'', 7 / 10), (''diabetes'', 3 / 10)],
          average_costs = [(''none'', 0), (''diabetes'', 12000)], total_cost = 36000\<rparr>"
        "[(''none'', 7 / 10), (''diabetes'', 3 / 10)]"]
  by (simp add: written_json_def dict_get_def)

text \<open>
  C9. A run of the sampler with population count 0 returns, without a division by zero:
  the record has population 0, an empty prevalence mapping (so every prevalence read from
  it, with default 0, is 0), an empty cost mapping and total cost 0.
\<close>

theorem zero_population_sampler:
  "n_patients cfg = 0 \<Longrightarrow>
     \<exists>out. run_sampler cfg rnd = Inr out \<and> population out = 0 \<and>
       joint_prevalence out = [] \<and> average_costs out = [] \<and> total_cost out = 0 \<and>
       (\<forall>k. dict_get (joint_prevalence out) k 0 = 0)"
  by (simp add: run_sampler_def Counter_def py_bind_def dict_get_def)

theorem zero_population_sampler_witness:
  "\<exists>out. run_sampler (default_sampler_config\<lparr>n_patients := 0\<rparr>) (\<lambda>i. 1 / 2) = Inr out \<and>
     population out = 0 \<and> joint_prevalence out = [] \<and> average_costs out = [] \<and>
     total_cost out = 0 \<and> (\<forall>k. dict_get (joint_prevalence out) k 0 = 0)"
  using zero_population_sampler [of "default_sampler_config\<lparr>n_patients := 0\<rparr>" "\<lambda>i. 1 / 2"]
  by (simp add: default_sampler_config_def)

end
